theory Spec2Isabelle
  imports Complex_Main
begin

section \<open>JavaScript values and the runtime the handlers call\<close>

text \<open>
  The handlers are TypeScript, but the request body and the cookie reach them as untyped
  JavaScript values. A value that came out of \<^verbatim>\<open>JSON.parse\<close> or \<^verbatim>\<open>request.json()\<close> is one
  of the shapes below; \<open>JUndefined\<close> is what reading a missing property yields. An object
  lists its own properties, each name once. A number is an IEEE double: a finite one is the
  rational it denotes (both zeros are \<open>Finite 0\<close>), and an overflowing literal parses to an
  infinity. Only its truthiness matters below.
\<close>

datatype number = Finite rat | PosInfinity | NegInfinity

datatype jsval =
    JUndefined
  | JNull
  | JBool bool
  | JNumber number
  | JString string
  | JArray "jsval list"
  | JObject "(string \<times> jsval) list"

text \<open>A thrown value: an instance of \<^verbatim>\<open>Error\<close> with its message, or anything else.\<close>

datatype thrown = Error string | NonError

text \<open>Instants are milliseconds since the epoch, as \<^verbatim>\<open>Date.prototype.valueOf\<close> reports them.\<close>

type_synonym time = int

text \<open>
  The library functions the handlers call are not part of the repository; they are taken
  as parameters, bundled in one record:
  \<^item> \<open>compareSync\<close> is bcryptjs's password check (it throws on a non-string argument);
  \<^item> \<open>JSON_parse\<close> is \<^verbatim>\<open>JSON.parse\<close>, \<open>Inl\<close> being the thrown \<^verbatim>\<open>SyntaxError\<close>;
  \<^item> \<open>Date_parse\<close> is the instant of \<^verbatim>\<open>new Date(s)\<close> for a string \<open>s\<close>, \<open>None\<close> being
    the invalid date (its time value is NaN); it never throws;
  \<^item> \<open>Date_construct\<close> is \<^verbatim>\<open>new Date(v)\<close> for any other value, which converts \<open>v\<close> to a
    primitive first and throws when an object has no usable conversion.
\<close>

record runtime =
  compareSync :: "jsval \<Rightarrow> string \<Rightarrow> thrown + bool"
  JSON_parse :: "string \<Rightarrow> thrown + jsval"
  Date_parse :: "string \<Rightarrow> time option"
  Date_construct :: "jsval \<Rightarrow> thrown + time option"

definition new_Date :: "runtime \<Rightarrow> jsval \<Rightarrow> thrown + time option" where
  "new_Date rt v = (case v of JString s \<Rightarrow> Inr (Date_parse rt s) | _ \<Rightarrow> Date_construct rt v)"

text \<open>
  \<^verbatim>\<open>d < new Date()\<close> and \<^verbatim>\<open>d > new Date()\<close> compare time values; every comparison with
  the NaN of an invalid date is false.
\<close>

definition date_lt :: "time option \<Rightarrow> time \<Rightarrow> bool" where
  "date_lt d now = (case d of None \<Rightarrow> False | Some t \<Rightarrow> t < now)"

definition date_gt :: "time option \<Rightarrow> time \<Rightarrow> bool" where
  "date_gt d now = (case d of None \<Rightarrow> False | Some t \<Rightarrow> now < t)"

text \<open>Truthiness, as \<^verbatim>\<open>!v\<close> tests it.\<close>

fun truthy :: "jsval \<Rightarrow> bool" where
  "truthy JUndefined = False"
| "truthy JNull = False"
| "truthy (JBool b) = b"
| "truthy (JNumber n) = (n \<noteq> Finite 0)"
| "truthy (JString s) = (s \<noteq> [])"
| "truthy (JArray xs) = True"
| "truthy (JObject kvs) = True"

text \<open>
  Reading a property \<^verbatim>\<open>v.k\<close>. On \<^verbatim>\<open>undefined\<close> and \<^verbatim>\<open>null\<close> it throws a \<^verbatim>\<open>TypeError\<close>
  (the message is V8's); on an object it is the property or \<^verbatim>\<open>undefined\<close>. The handlers
  read only \<^verbatim>\<open>username\<close>, \<^verbatim>\<open>password\<close>, \<^verbatim>\<open>token\<close> and \<^verbatim>\<open>expires\<close>, none of which a
  string, number, boolean or array has, so on those the result is \<^verbatim>\<open>undefined\<close>.
\<close>

definition cannot_read :: "string \<Rightarrow> string \<Rightarrow> thrown" where
  "cannot_read what k =
     Error (''Cannot read properties of '' @ what @ '' (reading '' @ [CHR 0x27] @ k @ [CHR 0x27] @ '')'')"

fun get_prop :: "jsval \<Rightarrow> string \<Rightarrow> thrown + jsval" where
  "get_prop JUndefined k = Inl (cannot_read ''undefined'' k)"
| "get_prop JNull k = Inl (cannot_read ''null'' k)"
| "get_prop (JObject kvs) k = Inr (case map_of kvs k of None \<Rightarrow> JUndefined | Some x \<Rightarrow> x)"
| "get_prop v k = Inr JUndefined"

section \<open>The data model (interfaces.ts)\<close>

record LoginToken =
  token :: string
  expires :: string

record User =
  id_user :: string
  fullName :: string
  email :: string
  username :: string
  password :: string
  tokens :: "LoginToken list"

text \<open>The objects as \<^verbatim>\<open>JSON.stringify\<close> sees them: every property, in declaration order.\<close>

definition LoginToken_json :: "LoginToken \<Rightarrow> jsval" where
  "LoginToken_json t = JObject [(''token'', JString (token t)), (''expires'', JString (expires t))]"

definition User_json :: "User \<Rightarrow> jsval" where
  "User_json u = JObject
     [(''id'', JString (id_user u)),
      (''fullName'', JString (fullName u)),
      (''email'', JString (email u)),
      (''username'', JString (username u)),
      (''password'', JString (password u)),
      (''tokens'', JArray (map LoginToken_json (tokens u)))]"

text \<open>
  A \<^verbatim>\<open>LoginCookie\<close> is what the client stores after a login: the token object and a user
  object (which the server never reads).
\<close>

definition LoginCookie_json :: "LoginToken \<Rightarrow> jsval \<Rightarrow> jsval" where
  "LoginCookie_json t u = JObject [(''user'', u), (''token'', LoginToken_json t)]"

text \<open>
  \<^verbatim>\<open>JSON.stringify\<close> of an object literal leaves out the properties whose value is
  \<^verbatim>\<open>undefined\<close>.
\<close>

definition stringify_object :: "(string \<times> jsval) list \<Rightarrow> jsval" where
  "stringify_object kvs = JObject (filter (\<lambda>kv. snd kv \<noteq> JUndefined) kvs)"

text \<open>
  A request, reduced to what the handlers read of it: the outcome of \<^verbatim>\<open>request.json()\<close>
  and the value of the auth cookie, \<^verbatim>\<open>cookies[NEXT_PUBLIC_AUTH_COOKIE_KEY]\<close>, after the
  cookie package parsed the header (\<open>None\<close> when the header has no such cookie).
\<close>

record Request =
  json :: "thrown + jsval"
  cookie :: "string option"

text \<open>
  A response: its status (200 unless the constructor is given another), the headers the
  handler passed to the constructor, and its body, either a plain text or the value that
  was handed to \<^verbatim>\<open>JSON.stringify\<close>.
\<close>

datatype body = Text string | Json jsval

record Response =
  status :: nat
  headers :: "(string \<times> string) list"
  body :: body

section \<open>util/fakeDb.ts and util/sanitizeUser.ts\<close>

text \<open>
  The only stored user. Its one token expires at \<^verbatim>\<open>futureDate\<close>, the module's load time
  plus thirty days; the parameter is \<^verbatim>\<open>futureDate.toISOString()\<close>, the text the record
  holds.
\<close>

definition userData :: "string \<Rightarrow> User" where
  "userData futureDate_iso =
     \<lparr> id_user = ''szbxTRMAbSaCMxdmk7AMbIfSCO'',
       fullName = ''Joe Blow'',
       email = ''joeblow@example.com'',
       username = ''joeblow'',
       password = ''$2a$12$PUnDAFhNom/em/8nYc4kdOvEgUpYSA2aTcJ0B83qR0LQvG55.Z/de'',
       tokens =
         [\<lparr> token = ''7XOOBmzLlLlc7fZOk7KyuVFvxnSooVHNV7N4Yh7cdc4NP5bLZZaPMtDV7jPKxHp3HZ51Kh64W4d6wcAuJvHoqhg3TWHaV18zI2szBDLAiwKVEVtRqMeHHn8z3HbpYg5z'',
            expires = futureDate_iso \<rparr>] \<rparr>"

text \<open>
  \<open>fakeDb\<close> reads the module's user record \<open>db\<close> and the clock when its timer fires
  (\<open>now\<close>; the clock is taken to stand still while the token list is searched); \<open>None\<close>
  is the rejected promise, and the delay of the timer itself is not modelled. The argument
  is whatever value the caller passed: \<^verbatim>\<open>===\<close> holds only for a string with the same
  text. \<^verbatim>\<open>find\<close> yields the first matching token, an object and so truthy, or
  \<^verbatim>\<open>undefined\<close>.
\<close>

definition fakeDb :: "runtime \<Rightarrow> User \<Rightarrow> time \<Rightarrow> jsval \<Rightarrow> User option" where
  "fakeDb rt db now idv =
     (if idv = JString (id_user db) \<or>
         idv = JString (username db) \<or>
         idv = JString (email db) \<or>
         find (\<lambda>t. JString (token t) = idv \<and> date_gt (Date_parse rt (expires t)) now) (tokens db) \<noteq> None
      then Some db
      else None)"

definition sanitizeUser :: "User \<Rightarrow> User" where
  "sanitizeUser user = user\<lparr> password := [], tokens := [] \<rparr>"

section \<open>The API handlers\<close>

definition unauth :: Response where
  "unauth = \<lparr> status = 401, headers = [], body = Text ''Unauthorized'' \<rparr>"

text \<open>The outer \<^verbatim>\<open>catch\<close> of both handlers.\<close>

definition on_catch :: "thrown \<Rightarrow> Response" where
  "on_catch err =
     (case err of
        Error message \<Rightarrow> \<lparr> status = 500, headers = [], body = Text message \<rparr>
      | NonError \<Rightarrow> \<lparr> status = 500, headers = [], body = Text ''Unknown error'' \<rparr>)"

definition json_response :: "jsval \<Rightarrow> Response" where
  "json_response v = \<lparr> status = 200, headers = [(''Content-Type'', ''application/json'')], body = Json v \<rparr>"

text \<open>
  Every handler runs against the module's user record and returns it with its response:
  none of them writes to it. \<open>now\<close> is the clock when \<open>fakeDb\<close>'s timer fires.
  In the login handler the inner \<^verbatim>\<open>try\<close> holds \<^verbatim>\<open>await fakeDb(data.username)\<close>: a failing
  read of \<^verbatim>\<open>data.username\<close> and a rejected lookup both end in its \<^verbatim>\<open>catch\<close>, which answers
  401. The read of \<^verbatim>\<open>data.password\<close> and the password check stand outside it, under the outer
  \<^verbatim>\<open>catch\<close>. \<^verbatim>\<open>if (!user)\<close> never fires: \<open>fakeDb\<close> resolves with an object.
\<close>

definition login_handler :: "runtime \<Rightarrow> User \<Rightarrow> time \<Rightarrow> Request \<Rightarrow> Response \<times> User" where
  "login_handler rt db now request =
     (case json request of
        Inl err \<Rightarrow> (on_catch err, db)
      | Inr data \<Rightarrow>
          (case get_prop data ''username'' of
             Inl err \<Rightarrow> (unauth, db)
           | Inr name \<Rightarrow>
               (case fakeDb rt db now name of
                  None \<Rightarrow> (unauth, db)
                | Some user \<Rightarrow>
                    (case get_prop data ''password'' of
                       Inl err \<Rightarrow> (on_catch err, db)
                     | Inr pw \<Rightarrow>
                         (case compareSync rt pw (password user) of
                            Inl err \<Rightarrow> (on_catch err, db)
                          | Inr ok \<Rightarrow>
                              if \<not> ok then (unauth, db)
                              else
                                let tok = (case tokens user of [] \<Rightarrow> JUndefined | t # _ \<Rightarrow> LoginToken_json t)
                                in (json_response
                                      (stringify_object
                                         [(''user'', User_json (sanitizeUser user)), (''token'', tok)]),
                                    db))))))"

text \<open>
  In \<open>me_handler\<close> the clock is read twice: at \<open>now\<close> for the cookie's own expiry, and at
  \<open>now + lag\<close> inside \<open>fakeDb\<close>, whose timer fires later.
\<close>

definition me_handler :: "runtime \<Rightarrow> User \<Rightarrow> time \<Rightarrow> nat \<Rightarrow> Request \<Rightarrow> Response \<times> User" where
  "me_handler rt db now lag request =
     (case cookie request of
        None \<Rightarrow> (unauth, db)
      | Some c \<Rightarrow>
          if c = [] then (unauth, db)
          else
            (case JSON_parse rt c of
               Inl err \<Rightarrow> (on_catch err, db)
             | Inr cookieData \<Rightarrow>
                 (case get_prop cookieData ''token'' of
                    Inl err \<Rightarrow> (on_catch err, db)
                  | Inr tk \<Rightarrow>
                      if \<not> truthy tk then (unauth, db)
                      else
                        (case get_prop tk ''token'' of
                           Inl err \<Rightarrow> (on_catch err, db)
                         | Inr tt \<Rightarrow>
                             if \<not> truthy tt then (unauth, db)
                             else
                               (case get_prop tk ''expires'' of
                                  Inl err \<Rightarrow> (on_catch err, db)
                                | Inr ex \<Rightarrow>
                                    if \<not> truthy ex then (unauth, db)
                                    else
                                      (case new_Date rt ex of
                                         Inl err \<Rightarrow> (on_catch err, db)
                                       | Inr d \<Rightarrow>
                                           if date_lt d now then (unauth, db)
                                           else
                                             (case fakeDb rt db (now + int lag) tt of
                                                None \<Rightarrow> (unauth, db)
                                              | Some user \<Rightarrow>
                                                  (json_response (User_json (sanitizeUser user)), db))))))))"

text \<open>
  The logout handler only schedules a timer whose callback builds a response nobody
  receives; the handler itself resolves with \<^verbatim>\<open>undefined\<close> (\<open>None\<close>) and touches nothing.
\<close>

definition logout_handler :: "User \<Rightarrow> Request \<Rightarrow> Response option \<times> User" where
  "logout_handler db request = (None, db)"

section \<open>What a client reads of a response\<close>

text \<open>The value a successful login hands to \<^verbatim>\<open>JSON.stringify\<close>.\<close>

definition login_body :: "User \<Rightarrow> jsval" where
  "login_body user = stringify_object
     [(''user'', User_json (sanitizeUser user)),
      (''token'', case tokens user of [] \<Rightarrow> JUndefined | t # _ \<Rightarrow> LoginToken_json t)]"

text \<open>
  The client hook reads \<^verbatim>\<open>data.user\<close> and \<^verbatim>\<open>data.token\<close> off the parsed body of a login
  response; a text body has no fields.
\<close>

definition response_field :: "Response \<Rightarrow> string \<Rightarrow> jsval" where
  "response_field r k =
     (case body r of
        Text s \<Rightarrow> JUndefined
      | Json v \<Rightarrow> (case get_prop v k of Inl err \<Rightarrow> JUndefined | Inr x \<Rightarrow> x))"

text \<open>\<^verbatim>\<open>k in v\<close>: the object has the property, whatever its value.\<close>

definition has_key :: "jsval \<Rightarrow> string \<Rightarrow> bool" where
  "has_key v k = (case v of JObject kvs \<Rightarrow> k \<in> fst ` set kvs | _ \<Rightarrow> False)"

section \<open>A sample runtime and sample requests\<close>

text \<open>
  Concrete inputs on which the handlers are evaluated below. The module is loaded on
  2026-11-02 (instant 1793577600000), so the seeded token expires on 2026-12-02
  (instant 1796169600000). The sample runtime gives the answers of the library functions
  on the inputs used below, and on those only; on every other input it is left unspecified
  (\<open>undefined\<close>), and nothing below depends on it there.
  \<^item> The digest of the seeded user is the one of \<^verbatim>\<open>TestPassword4$\<close>, the password the login
    form is filled with; \<^verbatim>\<open>wrong\<close> does not match it.
  \<^item> The parser knows six texts: the cookie a login leaves behind, a cookie with a token the
    store never issued, a cookie whose \<^verbatim>\<open>expires\<close> is an object without a usable
    \<^verbatim>\<open>valueOf\<close> or \<^verbatim>\<open>toString\<close>, \<^verbatim>\<open>{}\<close>, \<^verbatim>\<open>null\<close>, and the unfinished text \<^verbatim>\<open>[\<close>, on
    which (as on the empty text) V8 throws \<^verbatim>\<open>Unexpected end of JSON input\<close>.
  \<^item> Of the date strings only the seeded expiry is parsed; \<^verbatim>\<open>new Date\<close> of the object
    above throws V8's \<^verbatim>\<open>Cannot convert object to primitive value\<close>.
\<close>

definition sample_iso :: string where
  "sample_iso = ''2026-12-02T00:00:00.000Z''"

definition sample_cookie :: string where
  \<open>sample_cookie = ''{"user":{"id":"szbxTRMAbSaCMxdmk7AMbIfSCO","fullName":"Joe Blow","email":"joeblow@example.com","username":"joeblow","password":"","tokens":[]},"token":{"token":"7XOOBmzLlLlc7fZOk7KyuVFvxnSooVHNV7N4Yh7cdc4NP5bLZZaPMtDV7jPKxHp3HZ51Kh64W4d6wcAuJvHoqhg3TWHaV18zI2szBDLAiwKVEVtRqMeHHn8z3HbpYg5z","expires":"2026-12-02T00:00:00.000Z"}}''\<close>

definition sample_forged_cookie :: string where
  \<open>sample_forged_cookie = ''{"user":null,"token":{"token":"forged","expires":"2026-12-02T00:00:00.000Z"}}''\<close>

definition sample_unconvertible :: jsval where
  "sample_unconvertible = JObject [(''valueOf'', JNumber (Finite 1)), (''toString'', JNumber (Finite 1))]"

definition sample_unconvertible_cookie :: string where
  \<open>sample_unconvertible_cookie = ''{"user":null,"token":{"token":"forged","expires":{"valueOf":1,"toString":1}}}''\<close>

definition sample_runtime :: runtime where
  "sample_runtime =
     \<lparr> compareSync = (\<lambda>pw digest.
          if digest = password (userData sample_iso) \<and> pw = JString ''TestPassword4$'' then Inr True
          else if digest = password (userData sample_iso) \<and> pw = JString ''wrong'' then Inr False
          else undefined),
       JSON_parse = (\<lambda>s.
          if s = sample_cookie
          then Inr (LoginCookie_json (hd (tokens (userData sample_iso)))
                      (User_json (sanitizeUser (userData sample_iso))))
          else if s = sample_forged_cookie
          then Inr (LoginCookie_json \<lparr> token = ''forged'', expires = sample_iso \<rparr> JNull)
          else if s = sample_unconvertible_cookie
          then Inr (JObject [(''user'', JNull),
                             (''token'', JObject [(''token'', JString ''forged''),
                                                  (''expires'', sample_unconvertible)])])
          else if s = ''{}'' then Inr (JObject [])
          else if s = ''null'' then Inr JNull
          else if s = [] \<or> s = ''['' then Inl (Error ''Unexpected end of JSON input'')
          else undefined),
       Date_parse = (\<lambda>s. if s = sample_iso then Some 1796169600000 else undefined),
       Date_construct = (\<lambda>v.
          if v = sample_unconvertible then Inl (Error ''Cannot convert object to primitive value'')
          else undefined) \<rparr>"

definition sample_login :: Request where
  "sample_login =
     \<lparr> json = Inr (JObject [(''username'', JString ''joeblow''), (''password'', JString ''TestPassword4$'')]),
       cookie = None \<rparr>"

definition sample_wrong_login :: Request where
  "sample_wrong_login =
     \<lparr> json = Inr (JObject [(''username'', JString ''joeblow''), (''password'', JString ''wrong'')]),
       cookie = None \<rparr>"

text \<open>A GET request has no body: \<^verbatim>\<open>request.json()\<close> would throw on it.\<close>

definition sample_me :: Request where
  "sample_me = \<lparr> json = Inl (Error ''Unexpected end of JSON input''), cookie = Some sample_cookie \<rparr>"

section \<open>Auxiliary facts\<close>

lemma status_unauth: "status unauth = 401"
  by (simp add: unauth_def)

lemma status_on_catch: "status (on_catch e) = 500"
  by (cases e) (simp_all add: on_catch_def)

lemma status_json_response: "status (json_response v) = 200"
  by (simp add: json_response_def)

lemma fakeDb_Some: "fakeDb rt db now v = Some u \<Longrightarrow> u = db"
  by (simp add: fakeDb_def split: if_splits)

lemma get_prop_ok: "get_prop v k = Inr x \<Longrightarrow> \<exists>y. get_prop v k' = Inr y"
  by (cases v) auto

lemma find_eq_None: "(find P xs = None) = (\<not> (\<exists>x \<in> set xs. P x))"
  by (induction xs) auto

text \<open>Every answer of a handler is one of three, and the user record comes back as it was.\<close>

lemma login_cases:
  "login_handler rt db now request = (unauth, db) \<or>
   (\<exists>e. login_handler rt db now request = (on_catch e, db)) \<or>
   login_handler rt db now request = (json_response (login_body db), db)"
  by (auto simp: login_handler_def login_body_def Let_def dest!: fakeDb_Some split: sum.split option.split)

lemma me_cases:
  "me_handler rt db now lag request = (unauth, db) \<or>
   (\<exists>e. me_handler rt db now lag request = (on_catch e, db)) \<or>
   me_handler rt db now lag request = (json_response (User_json (sanitizeUser db)), db)"
  by (auto simp: me_handler_def dest!: fakeDb_Some split: sum.split option.split)

lemma login_ok_body:
  assumes "status (fst (login_handler rt db now request)) = 200"
  shows "login_handler rt db now request = (json_response (login_body db), db)"
  using assms login_cases [of rt db now request]
  by (auto simp: status_unauth status_on_catch)

lemma me_ok_body:
  assumes "status (fst (me_handler rt db now lag request)) = 200"
  shows "me_handler rt db now lag request = (json_response (User_json (sanitizeUser db)), db)"
  using assms me_cases [of rt db now lag request]
  by (auto simp: status_unauth status_on_catch)

lemma login_success:
  assumes "json request = Inr data"
    and "get_prop data ''username'' = Inr (JString ident)"
    and "ident = id_user db \<or> ident = username db \<or> ident = email db"
    and "get_prop data ''password'' = Inr pw"
    and "compareSync rt pw (password db) = Inr True"
  shows "login_handler rt db now request = (json_response (login_body db), db)"
  using assms by (auto simp: login_handler_def login_body_def fakeDb_def Let_def)


text \<open>The handler on a cookie of the shape the client stores.\<close>

lemma get_prop_LoginCookie:
  "get_prop (LoginCookie_json t u) ''token'' = Inr (LoginToken_json t)"
  "get_prop (LoginToken_json t) ''token'' = Inr (JString (token t))"
  "get_prop (LoginToken_json t) ''expires'' = Inr (JString (expires t))"
  "truthy (LoginToken_json t)"
  by (simp_all add: LoginCookie_json_def LoginToken_json_def)

lemma me_no_cookie:
  "cookie request = None \<or> cookie request = Some [] \<Longrightarrow> me_handler rt db now lag request = (unauth, db)"
  by (auto simp: me_handler_def)

lemma me_LoginCookie:
  assumes "cookie request = Some c" and "c \<noteq> []"
    and "JSON_parse rt c = Inr (LoginCookie_json t u)"
  shows "me_handler rt db now lag request =
     (if token t = [] \<or> expires t = [] \<or> date_lt (Date_parse rt (expires t)) now
         \<or> fakeDb rt db (now + int lag) (JString (token t)) = None
      then (unauth, db) else (json_response (User_json (sanitizeUser db)), db))"
  using assms
  by (auto simp: me_handler_def get_prop_LoginCookie new_Date_def dest!: fakeDb_Some split: option.split)

lemma me_expired_cookie:
  assumes "cookie request = Some c" and "JSON_parse rt c = Inr (LoginCookie_json t u)"
    and "date_lt (Date_parse rt (expires t)) now \<or> fakeDb rt db (now + int lag) (JString (token t)) = None"
  shows "me_handler rt db now lag request = (unauth, db)"
proof (cases "c = []")
  case True
  with assms(1) show ?thesis by (simp add: me_no_cookie)
next
  case False
  with assms(3) show ?thesis by (auto simp: me_LoginCookie [OF assms(1) False assms(2)])
qed




text \<open>The seeded user: its token is found exactly while the stored expiry lies ahead.\<close>

lemma fakeDb_seed_token:
  "fakeDb rt (userData fdate) now (JString (token (hd (tokens (userData fdate))))) =
     (if date_gt (Date_parse rt fdate) now then Some (userData fdate) else None)"
  by (simp add: fakeDb_def userData_def)

lemma me_seed_valid:
  assumes "fdate \<noteq> []" and "Date_parse rt fdate = Some e" and "now + int lag < e"
    and "cookie request = Some c" and "c \<noteq> []"
    and "JSON_parse rt c = Inr (LoginCookie_json (hd (tokens (userData fdate))) u)"
  shows "me_handler rt (userData fdate) now lag request =
           (json_response (User_json (sanitizeUser (userData fdate))), userData fdate)"
proof -
  have tok: "token (hd (tokens (userData fdate))) \<noteq> []" "expires (hd (tokens (userData fdate))) = fdate"
    by (simp_all add: userData_def)
  have "\<not> date_lt (Date_parse rt fdate) now" "date_gt (Date_parse rt fdate) (now + int lag)"
    using assms(2,3) by (simp_all add: date_lt_def date_gt_def)
  then show ?thesis
    using assms(1) tok by (simp add: me_LoginCookie [OF assms(4,5,6)] fakeDb_seed_token)
qed

lemma me_seed_expired:
  assumes "Date_parse rt fdate = Some e" and "e \<le> now"
    and "cookie request = Some c"
    and "JSON_parse rt c =
           Inr (LoginCookie_json \<lparr> token = token (hd (tokens (userData fdate))), expires = x \<rparr> u)"
  shows "me_handler rt (userData fdate) now lag request = (unauth, userData fdate)"
proof -
  have "\<not> date_gt (Date_parse rt fdate) (now + int lag)"
    using assms(1,2) by (simp add: date_gt_def)
  then have "fakeDb rt (userData fdate) (now + int lag) (JString (token (hd (tokens (userData fdate))))) = None"
    by (simp add: fakeDb_seed_token)
  then show ?thesis
    by (intro me_expired_cookie [OF assms(3,4)]) simp
qed

text \<open>The handler on any parsed cookie, and the ways to a 500.\<close>

lemma me_seed_cookie:
  assumes "fdate \<noteq> []" and "Date_parse rt fdate = Some e"
    and "cookie request = Some c" and "c \<noteq> []"
    and "JSON_parse rt c = Inr (LoginCookie_json (hd (tokens (userData fdate))) u)"
  shows "me_handler rt (userData fdate) now lag request =
           (if now + int lag < e
            then (json_response (User_json (sanitizeUser (userData fdate))), userData fdate)
            else (unauth, userData fdate))"
proof -
  have tok: "token (hd (tokens (userData fdate))) \<noteq> []" "expires (hd (tokens (userData fdate))) = fdate"
    by (simp_all add: userData_def)
  have "date_lt (Date_parse rt fdate) now \<Longrightarrow> \<not> now + int lag < e"
    using assms(2) by (simp add: date_lt_def)
  moreover have "date_gt (Date_parse rt fdate) (now + int lag) = (now + int lag < e)"
    using assms(2) by (simp add: date_gt_def)
  ultimately show ?thesis
    using assms(1) tok by (auto simp: me_LoginCookie [OF assms(3,4,5)] fakeDb_seed_token)
qed




text \<open>What a sanitized user and a login body hold.\<close>

lemma sanitized_fields:
  "get_prop (User_json (sanitizeUser db)) ''password'' = Inr (JString [])"
  "get_prop (User_json (sanitizeUser db)) ''tokens'' = Inr (JArray [])"
  "has_key (User_json (sanitizeUser db)) ''password''"
  "has_key (User_json (sanitizeUser db)) ''tokens''"
  by (simp_all add: User_json_def sanitizeUser_def has_key_def)

lemma response_field_login_user:
  "response_field (json_response (login_body db)) ''user'' = User_json (sanitizeUser db)"
  by (simp add: response_field_def json_response_def login_body_def stringify_object_def User_json_def)

lemma response_field_login_token:
  "response_field (json_response (login_body db)) ''token'' =
     (case tokens db of [] \<Rightarrow> JUndefined | t # _ \<Rightarrow> LoginToken_json t)"
  by (simp add: response_field_def json_response_def login_body_def stringify_object_def
        User_json_def LoginToken_json_def split: list.split)

lemma login_body_seed:
  "login_body (userData fdate) =
     JObject [(''user'', User_json (sanitizeUser (userData fdate))),
              (''token'', LoginToken_json (hd (tokens (userData fdate))))]"
  by (simp add: login_body_def stringify_object_def userData_def LoginToken_json_def User_json_def)

text \<open>The sample runtime on the sample inputs.\<close>

lemma sample_iso_nonempty: "sample_iso \<noteq> []"
  by (simp add: sample_iso_def)

lemma sample_cookie_nonempty: "sample_cookie \<noteq> []"
  by (simp add: sample_cookie_def)

lemma sample_Date_parse: "Date_parse sample_runtime sample_iso = Some 1796169600000"
  by (simp add: sample_runtime_def)

lemma sample_compareSync:
  "compareSync sample_runtime (JString ''TestPassword4$'') (password (userData sample_iso)) = Inr True"
  "compareSync sample_runtime (JString ''wrong'') (password (userData sample_iso)) = Inr False"
  by (simp_all add: sample_runtime_def)

lemma sample_parse_cookie:
  "JSON_parse sample_runtime sample_cookie =
     Inr (LoginCookie_json (hd (tokens (userData sample_iso))) (User_json (sanitizeUser (userData sample_iso))))"
  by (simp add: sample_runtime_def)

lemma sample_parse_cookie_seed:
  "JSON_parse sample_runtime sample_cookie =
     Inr (LoginCookie_json \<lparr> token = token (hd (tokens (userData sample_iso))), expires = sample_iso \<rparr>
            (User_json (sanitizeUser (userData sample_iso))))"
  by (simp add: sample_parse_cookie userData_def)





lemma sample_forged_unknown:
  "fakeDb sample_runtime (userData sample_iso) now (JString ''forged'') = None"
  by (simp add: fakeDb_def userData_def)

lemma sample_cookie_of_me: "cookie sample_me = Some sample_cookie"
  by (simp add: sample_me_def)

lemma sample_login_ok:
  "login_handler sample_runtime (userData sample_iso) tlogin sample_login =
     (json_response (login_body (userData sample_iso)), userData sample_iso)"
  by (rule login_success [where ident = "''joeblow''" and pw = "JString ''TestPassword4$''"
        and data = "JObject [(''username'', JString ''joeblow''), (''password'', JString ''TestPassword4$'')]"])
     (simp_all add: sample_login_def sample_compareSync, simp_all add: userData_def)

lemma sample_me_valid:
  "me_handler sample_runtime (userData sample_iso) 1796169599000 500 sample_me =
     (json_response (User_json (sanitizeUser (userData sample_iso))), userData sample_iso)"
  by (rule me_seed_valid [OF sample_iso_nonempty sample_Date_parse _ sample_cookie_of_me
        sample_cookie_nonempty sample_parse_cookie]) simp

lemma sample_me_expired:
  "me_handler sample_runtime (userData sample_iso) 1796169601000 500 sample_me = (unauth, userData sample_iso)"
  by (rule me_seed_expired [OF sample_Date_parse _ sample_cookie_of_me sample_parse_cookie_seed]) simp


section \<open>Login, then validation\<close>

text \<open>
  C1, as the code has it. For the stored user and every identifier and password that match
  its credentials (the identifier is its id, its username or its email, and the password
  check accepts the password), login succeeds at any time and returns the sanitized user
  with the stored token. A later request to \<^verbatim>\<open>/api/auth/me\<close> whose cookie carries that token
  returns the same sanitized user exactly when the clock is still before the token's expiry
  at the moment \<open>fakeDb\<close>'s timer fires (\<open>now + lag\<close>); otherwise it is answered 401, also
  when the request itself arrived before the expiry.
\<close>

theorem login_then_me_same_user:
  assumes "ident = id_user (userData fdate) \<or> ident = username (userData fdate) \<or>
           ident = email (userData fdate)"
    and "json request = Inr data"
    and "get_prop data ''username'' = Inr (JString ident)"
    and "get_prop data ''password'' = Inr (JString pw)"
    and "compareSync rt (JString pw) (password (userData fdate)) = Inr True"
    and "fdate \<noteq> []" and "Date_parse rt fdate = Some e"
    and "cookie request' = Some c" and "c \<noteq> []"
    and "JSON_parse rt c = Inr (LoginCookie_json (hd (tokens (userData fdate))) u)"
  shows "login_handler rt (userData fdate) tlogin request =
           (json_response (JObject [(''user'', User_json (sanitizeUser (userData fdate))),
                                    (''token'', LoginToken_json (hd (tokens (userData fdate))))]),
            userData fdate) \<and>
         me_handler rt (snd (login_handler rt (userData fdate) tlogin request)) now lag request' =
           (if now + int lag < e
            then (json_response (User_json (sanitizeUser (userData fdate))), userData fdate)
            else (unauth, userData fdate))"
proof -
  have login: "login_handler rt (userData fdate) tlogin request =
      (json_response (login_body (userData fdate)), userData fdate)"
    using assms(2,3) assms(1) assms(4,5) by (rule login_success)
  have "me_handler rt (userData fdate) now lag request' =
      (if now + int lag < e
       then (json_response (User_json (sanitizeUser (userData fdate))), userData fdate)
       else (unauth, userData fdate))"
    using assms(6-10) by (rule me_seed_cookie)
  with login show ?thesis by (simp add: login_body_seed)
qed

text \<open>
  On the samples: \<^verbatim>\<open>joeblow\<close> logs in at load time, and the cookie validates one second
  before the expiry.
\<close>

theorem login_then_me_same_user_witness:
  "login_handler sample_runtime (userData sample_iso) 1793577600000 sample_login =
     (json_response (JObject [(''user'', User_json (sanitizeUser (userData sample_iso))),
                              (''token'', LoginToken_json (hd (tokens (userData sample_iso))))]),
      userData sample_iso) \<and>
   me_handler sample_runtime
       (snd (login_handler sample_runtime (userData sample_iso) 1793577600000 sample_login))
       1796169599000 500 sample_me =
     (json_response (User_json (sanitizeUser (userData sample_iso))), userData sample_iso)"
proof -
  have ident: "''joeblow'' = id_user (userData sample_iso) \<or> ''joeblow'' = username (userData sample_iso) \<or>
        ''joeblow'' = email (userData sample_iso)"
    by (simp add: userData_def)
  have body: "json sample_login =
      Inr (JObject [(''username'', JString ''joeblow''), (''password'', JString ''TestPassword4$'')])"
    by (simp add: sample_login_def)
  have name: "get_prop (JObject [(''username'', JString ''joeblow''), (''password'', JString ''TestPassword4$'')])
      ''username'' = Inr (JString ''joeblow'')"
    by simp
  have pw: "get_prop (JObject [(''username'', JString ''joeblow''), (''password'', JString ''TestPassword4$'')])
      ''password'' = Inr (JString ''TestPassword4$'')"
    by simp
  have ok: "compareSync sample_runtime (JString ''TestPassword4$'') (password (userData sample_iso)) = Inr True"
    by (simp add: sample_compareSync)
  have "login_handler sample_runtime (userData sample_iso) 1793577600000 sample_login =
     (json_response (JObject [(''user'', User_json (sanitizeUser (userData sample_iso))),
                              (''token'', LoginToken_json (hd (tokens (userData sample_iso))))]),
      userData sample_iso) \<and>
   me_handler sample_runtime
       (snd (login_handler sample_runtime (userData sample_iso) 1793577600000 sample_login))
       1796169599000 500 sample_me =
     (if 1796169599000 + int 500 < 1796169600000
      then (json_response (User_json (sanitizeUser (userData sample_iso))), userData sample_iso)
      else (unauth, userData sample_iso))"
    by (rule login_then_me_same_user [OF ident body name pw ok sample_iso_nonempty sample_Date_parse
          sample_cookie_of_me sample_cookie_nonempty sample_parse_cookie])
  then show ?thesis by (simp add: sample_login_ok)
qed

text \<open>
  C1 as stated fails: a validation that arrives 400 ms before the expiry, with the lookup's
  timer firing 500 ms later, is answered 401 although the login succeeded and the request
  was made before the token expired.
\<close>

theorem me_before_expiry_within_lag:
  "status (fst (login_handler sample_runtime (userData sample_iso) 1793577600000 sample_login)) = 200 \<and>
   Date_parse sample_runtime (expires (hd (tokens (userData sample_iso)))) = Some 1796169600000 \<and>
   (1796169599600 :: int) < 1796169600000 \<and>
   me_handler sample_runtime
       (snd (login_handler sample_runtime (userData sample_iso) 1793577600000 sample_login))
       1796169599600 500 sample_me = (unauth, userData sample_iso)"
proof -
  have "me_handler sample_runtime (userData sample_iso) 1796169599600 500 sample_me =
      (if 1796169599600 + int 500 < 1796169600000
       then (json_response (User_json (sanitizeUser (userData sample_iso))), userData sample_iso)
       else (unauth, userData sample_iso))"
    by (rule me_seed_cookie [OF sample_iso_nonempty sample_Date_parse sample_cookie_of_me
          sample_cookie_nonempty sample_parse_cookie])
  moreover have "expires (hd (tokens (userData sample_iso))) = sample_iso"
    by (simp add: userData_def)
  ultimately show ?thesis
    by (simp add: sample_login_ok status_json_response sample_Date_parse)
qed

section \<open>What the returned user object holds\<close>

text \<open>
  C2, as the code has it. Every user object that login or \<^verbatim>\<open>/api/auth/me\<close> returns (the
  \<^verbatim>\<open>user\<close> field of a 200 login response, the body of a 200 \<^verbatim>\<open>me\<close> response) is the stored
  user after \<open>sanitizeUser\<close>: its \<^verbatim>\<open>password\<close> is the empty string and its \<^verbatim>\<open>tokens\<close> the
  empty list. The two properties are emptied, not removed.
\<close>

theorem returned_user_is_emptied:
  assumes "(r = fst (login_handler rt db now request) \<and> u = response_field r ''user'') \<or>
           (r = fst (me_handler rt db now' lag request') \<and> body r = Json u)"
    and "status r = 200"
  shows "u = User_json (sanitizeUser db) \<and>
         get_prop u ''password'' = Inr (JString []) \<and>
         get_prop u ''tokens'' = Inr (JArray [])"
proof -
  have "u = User_json (sanitizeUser db)"
    using assms(1)
  proof
    assume a: "r = fst (login_handler rt db now request) \<and> u = response_field r ''user''"
    with assms(2) have "login_handler rt db now request = (json_response (login_body db), db)"
      by (intro login_ok_body) simp
    with a show ?thesis by (simp add: response_field_login_user)
  next
    assume a: "r = fst (me_handler rt db now' lag request') \<and> body r = Json u"
    with assms(2) have "me_handler rt db now' lag request' = (json_response (User_json (sanitizeUser db)), db)"
      by (intro me_ok_body) simp
    with a show ?thesis by (auto simp: json_response_def)
  qed
  then show ?thesis by (simp add: sanitized_fields)
qed

text \<open>On the samples: the login of \<^verbatim>\<open>joeblow\<close>, and the validation of its cookie.\<close>

theorem returned_user_is_emptied_witness:
  "(response_field (fst (login_handler sample_runtime (userData sample_iso) 1793577600000 sample_login)) ''user''
      = User_json (sanitizeUser (userData sample_iso)) \<and>
    get_prop (response_field (fst (login_handler sample_runtime (userData sample_iso) 1793577600000 sample_login)) ''user'')
      ''password'' = Inr (JString []) \<and>
    get_prop (response_field (fst (login_handler sample_runtime (userData sample_iso) 1793577600000 sample_login)) ''user'')
      ''tokens'' = Inr (JArray [])) \<and>
   (body (fst (me_handler sample_runtime (userData sample_iso) 1796169599000 500 sample_me))
      = Json (User_json (sanitizeUser (userData sample_iso))) \<and>
    get_prop (User_json (sanitizeUser (userData sample_iso))) ''password'' = Inr (JString []) \<and>
    get_prop (User_json (sanitizeUser (userData sample_iso))) ''tokens'' = Inr (JArray []))"
proof
  show "response_field (fst (login_handler sample_runtime (userData sample_iso) 1793577600000 sample_login)) ''user''
      = User_json (sanitizeUser (userData sample_iso)) \<and>
    get_prop (response_field (fst (login_handler sample_runtime (userData sample_iso) 1793577600000 sample_login)) ''user'')
      ''password'' = Inr (JString []) \<and>
    get_prop (response_field (fst (login_handler sample_runtime (userData sample_iso) 1793577600000 sample_login)) ''user'')
      ''tokens'' = Inr (JArray [])"
    by (rule returned_user_is_emptied [where rt = sample_runtime and now = 1793577600000
          and request = sample_login
          and r = "fst (login_handler sample_runtime (userData sample_iso) 1793577600000 sample_login)"])
       (simp_all add: sample_login_ok status_json_response)
  have "User_json (sanitizeUser (userData sample_iso)) = User_json (sanitizeUser (userData sample_iso)) \<and>
    get_prop (User_json (sanitizeUser (userData sample_iso))) ''password'' = Inr (JString []) \<and>
    get_prop (User_json (sanitizeUser (userData sample_iso))) ''tokens'' = Inr (JArray [])"
    by (rule returned_user_is_emptied [where rt = sample_runtime and now' = 1796169599000 and lag = 500
          and request' = sample_me
          and r = "fst (me_handler sample_runtime (userData sample_iso) 1796169599000 500 sample_me)"])
       (simp_all add: sample_me_valid json_response_def)
  then show "body (fst (me_handler sample_runtime (userData sample_iso) 1796169599000 500 sample_me))
      = Json (User_json (sanitizeUser (userData sample_iso))) \<and>
    get_prop (User_json (sanitizeUser (userData sample_iso))) ''password'' = Inr (JString []) \<and>
    get_prop (User_json (sanitizeUser (userData sample_iso))) ''tokens'' = Inr (JArray [])"
    by (simp add: sample_me_valid json_response_def)
qed

text \<open>
  C2 as stated fails: the user object of the scenario's successful login still has the
  properties \<^verbatim>\<open>password\<close> and \<^verbatim>\<open>tokens\<close>.
\<close>

theorem returned_user_keeps_password_key:
  "status (fst (login_handler sample_runtime (userData sample_iso) 1793577600000 sample_login)) = 200 \<and>
   has_key (response_field (fst (login_handler sample_runtime (userData sample_iso) 1793577600000 sample_login)) ''user'')
     ''password'' \<and>
   has_key (response_field (fst (login_handler sample_runtime (userData sample_iso) 1793577600000 sample_login)) ''user'')
     ''tokens''"
  by (simp add: sample_login_ok status_json_response response_field_login_user sanitized_fields)

section \<open>The lookup\<close>

text \<open>
  C3, as the code has it. For every identifier string, \<open>fakeDb\<close> resolves exactly when the
  string equals the user's id, username or email, or equals the token string of a stored
  token whose expiry is still ahead; otherwise it rejects, and a login with that identifier
  is answered 401 Unauthorized.
\<close>

theorem fakeDb_lookup_iff:
  "(fakeDb rt db now (JString s) = Some db) =
     (s = id_user db \<or> s = username db \<or> s = email db \<or>
      (\<exists>t \<in> set (tokens db). token t = s \<and> date_gt (Date_parse rt (expires t)) now)) \<and>
   (fakeDb rt db now (JString s) \<noteq> Some db \<longrightarrow>
      fakeDb rt db now (JString s) = None \<and>
      (\<forall>request data. json request = Inr data \<and> get_prop data ''username'' = Inr (JString s) \<longrightarrow>
         login_handler rt db now request = (unauth, db)))"
proof -
  have "(fakeDb rt db now (JString s) = Some db) =
     (s = id_user db \<or> s = username db \<or> s = email db \<or>
      (\<exists>t \<in> set (tokens db). token t = s \<and> date_gt (Date_parse rt (expires t)) now))"
    by (auto simp: fakeDb_def find_eq_None)
  moreover have "fakeDb rt db now (JString s) = None" if "fakeDb rt db now (JString s) \<noteq> Some db"
    using that by (simp add: fakeDb_def split: if_splits)
  moreover have "login_handler rt db now request = (unauth, db)"
    if "fakeDb rt db now (JString s) = None" "json request = Inr data"
       "get_prop data ''username'' = Inr (JString s)" for request data
    using that by (simp add: login_handler_def)
  ultimately show ?thesis by blast
qed

text \<open>On the samples: an unknown name is rejected and the login with it is answered 401.\<close>

theorem fakeDb_lookup_iff_witness:
  "fakeDb sample_runtime (userData sample_iso) 1793577600000 (JString ''forged'') = None \<and>
   login_handler sample_runtime (userData sample_iso) 1793577600000
       \<lparr> json = Inr (JObject [(''username'', JString ''forged''), (''password'', JString ''TestPassword4$'')]),
         cookie = None \<rparr>
     = (unauth, userData sample_iso)"
  using fakeDb_lookup_iff [of sample_runtime "userData sample_iso" 1793577600000 "''forged''"]
  by (simp add: sample_forged_unknown)

text \<open>
  C3 as stated fails: the seeded token string is none of the id, the username and the
  email, and yet the lookup resolves on it while the token has not expired.
\<close>

theorem fakeDb_accepts_token_as_identifier:
  "fakeDb sample_runtime (userData sample_iso) 1793577600000
       (JString (token (hd (tokens (userData sample_iso))))) = Some (userData sample_iso) \<and>
   token (hd (tokens (userData sample_iso))) \<noteq> id_user (userData sample_iso) \<and>
   token (hd (tokens (userData sample_iso))) \<noteq> username (userData sample_iso) \<and>
   token (hd (tokens (userData sample_iso))) \<noteq> email (userData sample_iso)"
proof -
  have "date_gt (Date_parse sample_runtime sample_iso) 1793577600000"
    by (simp add: sample_Date_parse date_gt_def)
  then have "fakeDb sample_runtime (userData sample_iso) 1793577600000
       (JString (token (hd (tokens (userData sample_iso))))) = Some (userData sample_iso)"
    by (simp add: fakeDb_seed_token)
  then show ?thesis by (simp add: userData_def)
qed


section \<open>Expired tokens\<close>

text \<open>
  C4. Once the clock has reached the stored expiry of the seeded token (the boundary
  \<open>now = e\<close> included), a request to \<^verbatim>\<open>/api/auth/me\<close> whose cookie carries that token is
  answered 401 Unauthorized, whatever expiry the cookie itself claims and whatever user
  object it carries.
\<close>

theorem me_expired_token_unauthorized:
  assumes "Date_parse rt fdate = Some e" and "e \<le> now"
    and "cookie request = Some c"
    and "JSON_parse rt c =
           Inr (LoginCookie_json \<lparr> token = token (hd (tokens (userData fdate))), expires = x \<rparr> u)"
  shows "me_handler rt (userData fdate) now lag request = (unauth, userData fdate) \<and> status unauth = 401"
  using me_seed_expired [OF assms] by (simp add: status_unauth)

text \<open>On the samples, at the very instant of the expiry.\<close>

theorem me_expired_token_unauthorized_witness:
  "me_handler sample_runtime (userData sample_iso) 1796169600000 500 sample_me = (unauth, userData sample_iso) \<and>
   status unauth = 401"
  by (rule me_expired_token_unauthorized [OF sample_Date_parse _ sample_cookie_of_me sample_parse_cookie_seed])
     simp

text \<open>
  C5, as the code has it. For the seeded token with its expiry behind, a validation is
  answered 401 Unauthorized and leaves the user record as it was (nothing is evicted); a
  later validation with the same cookie is answered with the same 401 again.
\<close>

theorem me_expired_keeps_token:
  assumes "Date_parse rt fdate = Some e" and "e \<le> now" and "now \<le> now'"
    and "cookie request = Some c"
    and "JSON_parse rt c =
           Inr (LoginCookie_json \<lparr> token = token (hd (tokens (userData fdate))), expires = x \<rparr> u)"
  shows "me_handler rt (userData fdate) now lag request = (unauth, userData fdate) \<and>
         me_handler rt (snd (me_handler rt (userData fdate) now lag request)) now' lag' request
           = (unauth, userData fdate)"
proof -
  have later: "e \<le> now'" using assms(2,3) by simp
  have first: "me_handler rt (userData fdate) now lag request = (unauth, userData fdate)"
    using assms(1,2,4,5) by (rule me_seed_expired)
  have second: "me_handler rt (userData fdate) now' lag' request = (unauth, userData fdate)"
    using assms(1) later assms(4,5) by (rule me_seed_expired)
  from first second show ?thesis by simp
qed

theorem me_expired_keeps_token_witness:
  "me_handler sample_runtime (userData sample_iso) 1796169601000 500 sample_me = (unauth, userData sample_iso) \<and>
   me_handler sample_runtime (snd (me_handler sample_runtime (userData sample_iso) 1796169601000 500 sample_me))
       1796169602000 500 sample_me = (unauth, userData sample_iso)"
  by (rule me_expired_keeps_token [OF sample_Date_parse _ _ sample_cookie_of_me sample_parse_cookie_seed])
     simp_all

text \<open>
  C5 as stated fails: after the failed validation the record still holds the expired
  token.
\<close>

theorem me_expired_no_eviction:
  "fst (me_handler sample_runtime (userData sample_iso) 1796169601000 500 sample_me) = unauth \<and>
   hd (tokens (userData sample_iso)) \<in>
     set (tokens (snd (me_handler sample_runtime (userData sample_iso) 1796169601000 500 sample_me)))"
  by (simp add: sample_me_expired) (simp add: userData_def)

section \<open>Wrong passwords\<close>

text \<open>
  C6. Whenever the password check returns false for the submitted password against the
  stored digest, login answers 401 Unauthorized: the body is the plain text
  \<^verbatim>\<open>Unauthorized\<close>, so neither a token nor a user is returned.
\<close>

theorem login_wrong_password_unauthorized:
  assumes "json request = Inr data"
    and "get_prop data ''password'' = Inr (JString pw)"
    and "compareSync rt (JString pw) (password db) = Inr False"
  shows "login_handler rt db now request = (unauth, db) \<and> status unauth = 401 \<and>
         body unauth = Text ''Unauthorized''"
proof -
  obtain name where n: "get_prop data ''username'' = Inr name"
    using get_prop_ok [OF assms(2)] by blast
  have "login_handler rt db now request = (unauth, db)"
  proof (cases "fakeDb rt db now name")
    case None
    with assms(1) n show ?thesis by (simp add: login_handler_def)
  next
    case (Some user)
    then have "user = db" by (rule fakeDb_Some)
    with Some assms n show ?thesis by (simp add: login_handler_def)
  qed
  then show ?thesis by (simp add: unauth_def)
qed

text \<open>On the samples: \<^verbatim>\<open>joeblow\<close> with the password \<^verbatim>\<open>wrong\<close>.\<close>

theorem login_wrong_password_unauthorized_witness:
  "login_handler sample_runtime (userData sample_iso) 1793577600000 sample_wrong_login
     = (unauth, userData sample_iso) \<and> status unauth = 401 \<and> body unauth = Text ''Unauthorized''"
proof (rule login_wrong_password_unauthorized [where pw = "''wrong''"
      and data = "JObject [(''username'', JString ''joeblow''), (''password'', JString ''wrong'')]"])
  show "json sample_wrong_login =
      Inr (JObject [(''username'', JString ''joeblow''), (''password'', JString ''wrong'')])"
    by (simp add: sample_wrong_login_def)
  show "compareSync sample_runtime (JString ''wrong'') (password (userData sample_iso)) = Inr False"
    by (simp add: sample_compareSync)
qed simp

section \<open>The token a login returns\<close>

text \<open>
  C7. Any two successful logins, the second running on the record the first left, return
  the same token: the first element of the user's stored token list (and no token at all
  if the list were empty).
\<close>

theorem login_token_is_first_stored:
  assumes "login_handler rt db now1 request1 = (r1, db1)"
    and "login_handler rt db1 now2 request2 = (r2, db2)"
    and "status r1 = 200" and "status r2 = 200"
  shows "response_field r1 ''token'' = response_field r2 ''token'' \<and>
         response_field r1 ''token'' = (case tokens db of [] \<Rightarrow> JUndefined | t # _ \<Rightarrow> LoginToken_json t)"
proof -
  have 1: "login_handler rt db now1 request1 = (json_response (login_body db), db)"
    using assms(1,3) by (intro login_ok_body) simp
  with assms(1) have db1: "db1 = db" and r1: "r1 = json_response (login_body db)" by auto
  have 2: "login_handler rt db now2 request2 = (json_response (login_body db), db)"
    using assms(2,4) db1 by (intro login_ok_body) simp
  with assms(2) db1 have r2: "r2 = json_response (login_body db)" by auto
  show ?thesis by (simp add: r1 r2 response_field_login_token)
qed

theorem login_token_is_first_stored_witness:
  "response_field (fst (login_handler sample_runtime (userData sample_iso) 1793577600000 sample_login)) ''token''
     = response_field (fst (login_handler sample_runtime (userData sample_iso) 1793577700000 sample_login)) ''token'' \<and>
   response_field (fst (login_handler sample_runtime (userData sample_iso) 1793577600000 sample_login)) ''token''
     = (case tokens (userData sample_iso) of [] \<Rightarrow> JUndefined | t # _ \<Rightarrow> LoginToken_json t)"
  by (rule login_token_is_first_stored [where rt = sample_runtime and db = "userData sample_iso"
        and ?now1.0 = 1793577600000 and ?now2.0 = 1793577700000 and ?request1.0 = sample_login
        and ?request2.0 = sample_login and ?db1.0 = "userData sample_iso" and ?db2.0 = "userData sample_iso"])
     (simp_all add: sample_login_ok status_json_response)


section \<open>Logout\<close>

text \<open>
  C9, as the code has it. The logout handler leaves the user record as it was, so every
  request to \<^verbatim>\<open>/api/auth/me\<close> is answered after a logout exactly as it would have been
  without it. In particular a request that comes after the logout and still carries the
  seeded token is answered with the sanitized user whenever the clock is before the token's
  expiry at the moment \<open>fakeDb\<close>'s timer fires, and with 401 otherwise. Logging out revokes
  nothing on the server.
\<close>

theorem logout_leaves_token_valid:
  assumes "fdate \<noteq> []" and "Date_parse rt fdate = Some e"
    and "cookie request' = Some c" and "c \<noteq> []"
    and "JSON_parse rt c = Inr (LoginCookie_json (hd (tokens (userData fdate))) u)"
  shows "logout_handler db request = (None, db) \<and>
         me_handler rt (snd (logout_handler db request)) now lag request' =
           me_handler rt db now lag request' \<and>
         me_handler rt (snd (logout_handler (userData fdate) request)) now lag request' =
           (if now + int lag < e
            then (json_response (User_json (sanitizeUser (userData fdate))), userData fdate)
            else (unauth, userData fdate))"
  using me_seed_cookie [OF assms] by (simp add: logout_handler_def)

text \<open>On the samples: the login cookie, one second before the expiry, after a logout.\<close>

theorem logout_leaves_token_valid_witness:
  "logout_handler (userData sample_iso) sample_me = (None, userData sample_iso) \<and>
   me_handler sample_runtime (snd (logout_handler (userData sample_iso) sample_me)) 1796169599000 500 sample_me =
     (json_response (User_json (sanitizeUser (userData sample_iso))), userData sample_iso)"
proof -
  have "logout_handler (userData sample_iso) sample_me = (None, userData sample_iso) \<and>
      me_handler sample_runtime (snd (logout_handler (userData sample_iso) sample_me)) 1796169599000 500 sample_me =
        me_handler sample_runtime (userData sample_iso) 1796169599000 500 sample_me \<and>
      me_handler sample_runtime (snd (logout_handler (userData sample_iso) sample_me)) 1796169599000 500 sample_me =
        (if 1796169599000 + int 500 < 1796169600000
         then (json_response (User_json (sanitizeUser (userData sample_iso))), userData sample_iso)
         else (unauth, userData sample_iso))"
    by (rule logout_leaves_token_valid [OF sample_iso_nonempty sample_Date_parse sample_cookie_of_me
          sample_cookie_nonempty sample_parse_cookie])
  then show ?thesis by (simp add: logout_handler_def)
qed

text \<open>
  C9 as stated fails: after a logout, the token issued before it still validates.
\<close>

theorem token_validates_after_logout:
  "status (fst (me_handler sample_runtime (snd (logout_handler (userData sample_iso) sample_me))
                  1796169599000 500 sample_me)) = 200"
  by (simp add: logout_handler_def sample_me_valid status_json_response)

section \<open>Cookies that do not validate\<close>




end
